theory Spec2Isabelle
  imports Complex_Main "HOL-Library.Char_ord" "HOL-Library.List_Lexorder"
begin

section \<open>Python values used by the two scripts\<close>

text \<open>
  The exceptions that the modelled code can raise. A \<open>KeyError\<close> of a column selection
  carries its message: \<open>None_of key\<close> for "None of [key] are in the [columns]", raised when
  no label of the key is a column, and \<open>Not_in_index labels\<close> for "[labels] not in index",
  raised when only some are missing, with each missing label listed once. \<open>Exception\<close>
  stands for any other exception raised by a library.
\<close>

datatype key_error = None_of "string list" | Not_in_index "string list"

datatype exn = ValueError | KeyError key_error | OverflowError | TypeError | Exception string

text \<open>
  A double: a finite value (a dyadic rational, so a real number), an infinity or a NaN.
  Only comparison with zero and conversion to an integer are applied to it, both exact.
\<close>

datatype float64 = Finite real | PosInf | NegInf | NaN

datatype number = PyInt int | PyFloat float64

text \<open>\<open>prediction > 0\<close>: every comparison with a NaN is false.\<close>

definition gt_zero :: "float64 \<Rightarrow> bool" where
  "gt_zero v = (case v of Finite x \<Rightarrow> 0 < x | PosInf \<Rightarrow> True | NegInf \<Rightarrow> False | NaN \<Rightarrow> False)"

text \<open>
  \<open>max(0, prediction)\<close>: the builtin keeps its first argument, the integer \<open>0\<close>, unless
  the second one compares greater.
\<close>

definition max0 :: "float64 \<Rightarrow> number" where
  "max0 v = (if gt_zero v then PyFloat v else PyInt 0)"

text \<open>
  \<open>int(x)\<close>: truncation towards zero; an infinity raises OverflowError and a NaN raises
  ValueError.
\<close>

definition py_int :: "number \<Rightarrow> exn + int" where
  "py_int n =
     (case n of
        PyInt i \<Rightarrow> Inr i
      | PyFloat v \<Rightarrow>
          (case v of
             Finite x \<Rightarrow> Inr (if 0 \<le> x then \<lfloor>x\<rfloor> else \<lceil>x\<rceil>)
           | PosInf \<Rightarrow> Inl OverflowError
           | NegInf \<Rightarrow> Inl OverflowError
           | NaN \<Rightarrow> Inl ValueError))"

section \<open>The label encoder\<close>

text \<open>
  A cell of the \<open>brand\<close> or \<open>model\<close> column of the listings. \<open>read_csv\<close> is called without
  a dtype, so a column whose cells are all whole numbers is an int64 column, and a column
  with any other text holds strings.
\<close>

datatype label = StrLabel string | IntLabel int

fun str_labels :: "label list \<Rightarrow> string list" where
  "str_labels [] = []"
| "str_labels (StrLabel s # ys) = s # str_labels ys"
| "str_labels (IntLabel n # ys) = str_labels ys"

fun int_labels :: "label list \<Rightarrow> int list" where
  "int_labels [] = []"
| "int_labels (StrLabel s # ys) = int_labels ys"
| "int_labels (IntLabel n # ys) = n # int_labels ys"

text \<open>
  A fitted \<open>LabelEncoder\<close> holds \<open>classes_\<close>, the distinct labels it saw, sorted: an array of
  strings (compared by code point, lexicographically) or an int64 array (compared as
  numbers).
\<close>

datatype classes_array = Objects "string list" | Int64s "int list"

record LabelEncoder =
  classes :: classes_array

definition position :: "'a list \<Rightarrow> 'a \<Rightarrow> nat" where
  "position cs c = length (takeWhile (\<lambda>x. x \<noteq> c) cs)"

text \<open>
  \<open>fit_transform(ys)\<close>: the sorted distinct labels and, for every entry, its position among
  them (the inverse of the unique operation). Strings and numbers in one column cannot be
  sorted together: TypeError.
\<close>

definition fit_transform :: "label list \<Rightarrow> exn + LabelEncoder \<times> int list" where
  "fit_transform ys =
     (if int_labels ys = [] then
        (let cs = sort (remdups (str_labels ys))
         in Inr (\<lparr>classes = Objects cs\<rparr>, map (\<lambda>s. int (position cs s)) (str_labels ys)))
      else if str_labels ys = [] then
        (let ns = sort (remdups (int_labels ys))
         in Inr (\<lparr>classes = Int64s ns\<rparr>, map (\<lambda>n. int (position ns n)) (int_labels ys)))
      else Inl TypeError)"

definition fit :: "label list \<Rightarrow> exn + LabelEncoder" where
  "fit ys = (case fit_transform ys of Inl e \<Rightarrow> Inl e | Inr (le, codes) \<Rightarrow> Inr le)"

text \<open>
  \<open>transform([s])[0]\<close> for a request string \<open>s\<close>. The list \<open>[s]\<close> is first converted to the
  dtype of \<open>classes_\<close>: nothing happens for an array of strings; for an int64 array the
  string is converted to a number by numpy, which is the parameter \<open>astype\<close> (it returns
  the number or raises). The result is the position of the label in \<open>classes_\<close>, and
  ValueError is raised for a label that is not there.
\<close>

definition transform :: "(string \<Rightarrow> exn + int) \<Rightarrow> LabelEncoder \<Rightarrow> string \<Rightarrow> exn + int" where
  "transform astype le s =
     (case classes le of
        Objects cs \<Rightarrow> (if s \<in> set cs then Inr (int (position cs s)) else Inl ValueError)
      | Int64s ns \<Rightarrow>
          (case astype s of
             Inl e \<Rightarrow> Inl e
           | Inr n \<Rightarrow> (if n \<in> set ns then Inr (int (position ns n)) else Inl ValueError)))"

section \<open>Data frames and the regressor\<close>

text \<open>
  A row of a data frame: the column labels, in column order, each with the row's value.
  \<open>df[names]\<close> selects the columns \<open>names\<close>, in the order of \<open>names\<close>, and raises KeyError
  when a label is not a column.
\<close>

type_synonym 'v frame = "(string \<times> 'v) list"

fun columns :: "'v frame \<Rightarrow> string list \<Rightarrow> 'v frame" where
  "columns df [] = []"
| "columns df (n # ns) =
     (case map_of df n of None \<Rightarrow> columns df ns | Some v \<Rightarrow> (n, v) # columns df ns)"

text \<open>The distinct elements of a list, in the order of their first occurrence.\<close>

definition unique :: "'a list \<Rightarrow> 'a list" where
  "unique xs = rev (remdups (rev xs))"

definition getitem_columns :: "'v frame \<Rightarrow> string list \<Rightarrow> exn + 'v frame" where
  "getitem_columns df names =
     (let missing = filter (\<lambda>n. map_of df n = None) names
      in if missing = [] then Inr (columns df names)
         else if length missing = length names then Inl (KeyError (None_of names))
         else Inl (KeyError (Not_in_index (unique missing))))"

text \<open>
  The fitted \<open>RandomForestRegressor\<close> is opaque: \<open>predict(input_df)[0]\<close> is some function of
  the one-row frame, which may raise. Its truth value is \<open>len(model) > 0\<close>, the number of
  fitted trees.
\<close>

record RandomForestRegressor =
  n_estimators :: nat
  predict :: "int frame \<Rightarrow> exn + float64"

section \<open>training_model.py\<close>

text \<open>A cell of the listings frame: a number or a string.\<close>

datatype cell = Num real | Str string

definition label_cell :: "label \<Rightarrow> cell" where
  "label_cell l = (case l of StrLabel s \<Rightarrow> Str s | IntLabel n \<Rightarrow> Num (of_int n))"

text \<open>
  A record of \<open>cleaned_autocentral_data.csv\<close>; the numeric columns hold numbers, \<open>brand\<close> and
  \<open>model\<close> hold labels.
\<close>

record listing =
  price :: real
  year :: real
  brand :: label
  model :: label
  mileage :: real
  cv :: real
  fuel_type :: real
  transmission :: real

text \<open>\<open>df = df[df['price'] > 0].copy()\<close>\<close>

definition df_clean :: "listing list \<Rightarrow> listing list" where
  "df_clean csv = filter (\<lambda>r. 0 < price r) csv"

text \<open>
  A row of the frame once \<open>df['brand_encoded']\<close> and \<open>df['model_encoded']\<close> are assigned:
  the columns of the file, then the two new columns at the end.
\<close>

definition row_cells :: "listing \<Rightarrow> int \<Rightarrow> int \<Rightarrow> cell frame" where
  "row_cells r b m =
     [(''price'', Num (price r)), (''year'', Num (year r)), (''brand'', label_cell (brand r)),
      (''model'', label_cell (model r)), (''mileage'', Num (mileage r)), (''cv'', Num (cv r)),
      (''fuel_type'', Num (fuel_type r)), (''transmission'', Num (transmission r)),
      (''brand_encoded'', Num (of_int b)), (''model_encoded'', Num (of_int m))]"

text \<open>
  The two encoders and the frame with the two encoded columns; fitting an encoder can
  raise.
\<close>

definition df_encoded ::
  "listing list \<Rightarrow> exn + LabelEncoder \<times> LabelEncoder \<times> cell frame list" where
  "df_encoded csv =
     (let df = df_clean csv
      in case fit_transform (map brand df) of
           Inl e \<Rightarrow> Inl e
         | Inr (le_brand, bs) \<Rightarrow>
             (case fit_transform (map model df) of
                Inl e \<Rightarrow> Inl e
              | Inr (le_model, ms) \<Rightarrow>
                  Inr (le_brand, le_model,
                       map (\<lambda>(r, b, m). row_cells r b m) (zip df (zip bs ms)))))"

definition features :: "string list" where
  "features = [''year'', ''mileage'', ''cv'', ''fuel_type'', ''transmission'',
               ''brand_encoded'', ''model_encoded'']"

text \<open>
  \<open>X = df[features]\<close> and \<open>y = df[target]\<close>. Every label of \<open>features\<close> is a column of the
  frame, so this selection finds all of them.
\<close>

definition X_features :: "listing list \<Rightarrow> exn + cell frame list" where
  "X_features csv =
     (case df_encoded csv of
        Inl e \<Rightarrow> Inl e
      | Inr (le_brand, le_model, df) \<Rightarrow> Inr (map (\<lambda>row. columns row features) df))"

definition y_target :: "listing list \<Rightarrow> real list" where
  "y_target csv = map price (df_clean csv)"

text \<open>
  The four files the script writes, and how a run of the script ends when it writes none:
  \<open>exit()\<close> when the listings file is not found, or an exception that nothing catches.
\<close>

record pickles =
  car_price_model_pkl :: "RandomForestRegressor option"
  brand_encoder_pkl :: "LabelEncoder option"
  model_encoder_pkl :: "LabelEncoder option"
  feature_names_pkl :: "string list option"

datatype stop = SystemExit | Uncaught exn

text \<open>
  The script. \<open>file\<close> is the content of the listings file, \<open>None\<close> when there is no such
  file. \<open>train_test_split\<close> with \<open>test_size=0.2\<close> raises ValueError when the training part
  would be empty, which is when fewer than two listings are kept. The choice of the
  training part and the fitting of the forest on it are the parameter \<open>train\<close>, which
  returns the fitted regressor or raises. The files are written only at the end.
\<close>

definition training_model ::
  "(cell frame list \<Rightarrow> real list \<Rightarrow> exn + RandomForestRegressor) \<Rightarrow> listing list option \<Rightarrow>
   stop + pickles" where
  "training_model train file =
     (case file of
        None \<Rightarrow> Inl SystemExit
      | Some csv \<Rightarrow>
          (case df_encoded csv of
             Inl e \<Rightarrow> Inl (Uncaught e)
           | Inr (le_brand, le_model, df) \<Rightarrow>
               (let X = map (\<lambda>row. columns row features) df; y = y_target csv
                in if length X < 2 then Inl (Uncaught ValueError)
                   else
                     (case train X y of
                        Inl e \<Rightarrow> Inl (Uncaught e)
                      | Inr rf_model \<Rightarrow>
                          Inr \<lparr>car_price_model_pkl = Some rf_model,
                               brand_encoder_pkl = Some le_brand,
                               model_encoder_pkl = Some le_model,
                               feature_names_pkl = Some features\<rparr>))))"

section \<open>backend.py\<close>

text \<open>
  The four globals, \<open>None\<close> until a file is loaded. At start-up each one is read from its
  file when the file exists.
\<close>

record globals =
  model :: "RandomForestRegressor option"
  brand_encoder :: "LabelEncoder option"
  model_encoder :: "LabelEncoder option"
  feature_names :: "string list option"

definition startup :: "pickles \<Rightarrow> globals" where
  "startup files =
     \<lparr>globals.model = car_price_model_pkl files,
      brand_encoder = brand_encoder_pkl files,
      model_encoder = model_encoder_pkl files,
      feature_names = feature_names_pkl files\<rparr>"

record CarPredictionInput =
  year :: int
  brand :: string
  model :: string
  mileage :: int
  cv :: int
  fuel_type :: string
  transmission :: string

record response =
  input :: CarPredictionInput
  estimated_price_tnd :: int
  message :: string
  timestamp :: string

text \<open>
  The detail of an \<open>HTTPException\<close>: a fixed text, or \<open>Prediction_error e\<close> for the text
  \<open>f"Prediction error: {str(e)}"\<close>.
\<close>

datatype detail = Text string | Prediction_error exn

datatype HTTPException = HTTPException (status_code: int) (detail: detail)

text \<open>
  \<open>all([model, brand_encoder, model_encoder, feature_names])\<close>: \<open>None\<close> is false, an encoder
  object is true, the regressor is true when it has a tree, a list when it is not empty.
\<close>

definition all_loaded :: "globals \<Rightarrow> bool" where
  "all_loaded g =
     ((case globals.model g of None \<Rightarrow> False | Some m \<Rightarrow> 0 < n_estimators m) \<and>
      (case brand_encoder g of None \<Rightarrow> False | Some be \<Rightarrow> True) \<and>
      (case model_encoder g of None \<Rightarrow> False | Some me \<Rightarrow> True) \<and>
      (case feature_names g of None \<Rightarrow> False | Some fn \<Rightarrow> fn \<noteq> []))"

text \<open>
  \<open>try: enc.transform([s])[0]  except ValueError: -1\<close>
\<close>

definition transform_or_default ::
  "(string \<Rightarrow> exn + int) \<Rightarrow> LabelEncoder \<Rightarrow> string \<Rightarrow> exn + int" where
  "transform_or_default astype enc s =
     (case transform astype enc s of
        Inr code \<Rightarrow> Inr code
      | Inl e \<Rightarrow> (if e = ValueError then Inr (- 1) else Inl e))"

definition transmission_encoded :: "string \<Rightarrow> int" where
  "transmission_encoded t = (if t = ''Automatique'' then 1 else 0)"

definition age :: "int \<Rightarrow> int" where
  "age yr = 2025 - yr"

definition fuel_mapping :: "(string \<times> int) list" where
  "fuel_mapping = [(''Essence'', 0), (''Diesel'', 1), (''Hybrid'', 2)]"

text \<open>\<open>fuel_mapping.get(car.fuel_type, 0)\<close>\<close>

definition fuel_encoded :: "string \<Rightarrow> int" where
  "fuel_encoded f = (case map_of fuel_mapping f of None \<Rightarrow> 0 | Some code \<Rightarrow> code)"

text \<open>The dictionary \<open>input_data\<close>, in insertion order.\<close>

definition input_data :: "int \<Rightarrow> int \<Rightarrow> CarPredictionInput \<Rightarrow> int frame" where
  "input_data b m car =
     [(''year'', age (year car)),
      (''mileage'', mileage car),
      (''cv'', cv car),
      (''fuel_type'', fuel_encoded (fuel_type car)),
      (''transmission'', transmission_encoded (transmission car)),
      (''brand_encoded'', b),
      (''model_encoded'', m)]"

text \<open>
  \<open>input_df = pd.DataFrame([input_data])[feature_names]\<close>, after the two encodings.
\<close>

definition input_df ::
  "(string \<Rightarrow> exn + int) \<Rightarrow> LabelEncoder \<Rightarrow> LabelEncoder \<Rightarrow> string list \<Rightarrow>
   CarPredictionInput \<Rightarrow> exn + int frame" where
  "input_df astype be me fn car =
     (case transform_or_default astype be (brand car) of
        Inl e \<Rightarrow> Inl e
      | Inr b \<Rightarrow>
          (case transform_or_default astype me (model car) of
             Inl e \<Rightarrow> Inl e
           | Inr m \<Rightarrow> getitem_columns (input_data b m car) fn))"

text \<open>The body of the \<open>try\<close> block; \<open>now\<close> is \<open>datetime.now().isoformat()\<close>.\<close>

definition try_block ::
  "(string \<Rightarrow> exn + int) \<Rightarrow> RandomForestRegressor \<Rightarrow> LabelEncoder \<Rightarrow> LabelEncoder \<Rightarrow>
   string list \<Rightarrow> string \<Rightarrow> CarPredictionInput \<Rightarrow> exn + response" where
  "try_block astype m be me fn now car =
     (case input_df astype be me fn car of
        Inl e \<Rightarrow> Inl e
      | Inr df \<Rightarrow>
          (case predict m df of
             Inl e \<Rightarrow> Inl e
           | Inr prediction \<Rightarrow>
               (case py_int (max0 prediction) of
                  Inl e \<Rightarrow> Inl e
                | Inr p \<Rightarrow>
                    Inr \<lparr>input = car, estimated_price_tnd = p,
                         message = ''Prediction successful'', timestamp = now\<rparr>)))"

definition not_loaded :: HTTPException where
  "not_loaded =
     HTTPException 500 (Text ''Model or encoders not loaded. Run training_model.py first.'')"

definition predict_price ::
  "(string \<Rightarrow> exn + int) \<Rightarrow> globals \<Rightarrow> string \<Rightarrow> CarPredictionInput \<Rightarrow>
   HTTPException + response" where
  "predict_price astype g now car =
     (if \<not> all_loaded g then Inl not_loaded
      else
        (case (globals.model g, brand_encoder g, model_encoder g, feature_names g) of
           (Some m, Some be, Some me, Some fn) \<Rightarrow>
             (case try_block astype m be me fn now car of
                Inl e \<Rightarrow> Inl (HTTPException 400 (Prediction_error e))
              | Inr r \<Rightarrow> Inr r)
         | _ \<Rightarrow> Inl not_loaded))"

text \<open>
  The globals of a backend started after a run of the training script: the files are there
  when the script wrote them, and none is there when it stopped before.
\<close>

definition no_files :: pickles where
  "no_files =
     \<lparr>car_price_model_pkl = None, brand_encoder_pkl = None, model_encoder_pkl = None,
      feature_names_pkl = None\<rparr>"

definition startup_after :: "stop + pickles \<Rightarrow> globals" where
  "startup_after run = (case run of Inl s \<Rightarrow> startup no_files | Inr files \<Rightarrow> startup files)"

section \<open>Example data\<close>

text \<open>
  A small listings file (its third record has no price and is dropped), a regressor that
  stands for a fitted forest, the globals that start-up loads after training on the file,
  and a request. A second listings file has a \<open>model\<close> column of whole numbers only. The
  example conversion turns a text of decimal digits into the number it denotes and raises
  ValueError on any other text.
\<close>

definition demo_csv :: "listing list" where
  "demo_csv =
     [\<lparr>listing.price = 42000, listing.year = 2020, listing.brand = StrLabel ''Kia'',
       listing.model = StrLabel ''Rio'', listing.mileage = 85000, listing.cv = 5,
       listing.fuel_type = 0, listing.transmission = 0\<rparr>,
      \<lparr>listing.price = 95000, listing.year = 2019, listing.brand = StrLabel ''BMW'',
       listing.model = StrLabel ''X1'', listing.mileage = 60000, listing.cv = 9,
       listing.fuel_type = 1, listing.transmission = 1\<rparr>,
      \<lparr>listing.price = 0, listing.year = 2015, listing.brand = StrLabel ''Fiat'',
       listing.model = StrLabel ''Panda'', listing.mileage = 120000, listing.cv = 4,
       listing.fuel_type = 0, listing.transmission = 0\<rparr>]"


definition demo_forest :: RandomForestRegressor where
  "demo_forest =
     \<lparr>n_estimators = 100,
      predict = (\<lambda>df.
        (case (map_of df ''year'', map_of df ''mileage'') of
           (Some a, Some k) \<Rightarrow> Inr (Finite (30000.75 - 1000 * real_of_int a - real_of_int k / 8))
         | _ \<Rightarrow> Inl (Exception ''feature names do not match'')))\<rparr>"

definition demo_globals :: globals where
  "demo_globals =
     startup_after (training_model (\<lambda>x_train y_train. Inr demo_forest) (Some demo_csv))"


definition demo_astype :: "string \<Rightarrow> exn + int" where
  "demo_astype s =
     (if s \<noteq> [] \<and> list_all (\<lambda>c. c \<in> set ''0123456789'') s
      then Inr (int (foldl (\<lambda>a c. 10 * a + position ''0123456789'' c) 0 s))
      else Inl ValueError)"

definition demo_now :: string where
  "demo_now = ''2025-06-01T12:00:00''"

definition kia_rio :: CarPredictionInput where
  "kia_rio =
     \<lparr>year = 2020, brand = ''Kia'', model = ''Rio'', mileage = 85000, cv = 5,
      fuel_type = ''Essence'', transmission = ''Manuelle''\<rparr>"

section \<open>Auxiliary facts\<close>

lemma py_int_max0_Finite: "py_int (max0 (Finite x)) = Inr (max 0 \<lfloor>x\<rfloor>)"
  by (simp add: py_int_def max0_def gt_zero_def max_def)


lemma transform_or_default_Inr:
  assumes "\<forall>e. transform astype enc s = Inl e \<longrightarrow> e = ValueError"
  shows "\<exists>b. transform_or_default astype enc s = Inr b \<and>
           (transform astype enc s = Inl ValueError \<longrightarrow> b = - 1) \<and>
           (\<forall>c. transform astype enc s = Inr c \<longrightarrow> b = c)"
  using assms by (cases "transform astype enc s") (auto simp: transform_or_default_def)

lemma transform_Objects_only_ValueError:
  "classes enc = Objects cs \<Longrightarrow> \<forall>e. transform astype enc s = Inl e \<longrightarrow> e = ValueError"
  by (simp add: transform_def)

lemma columns_fst: "set names \<subseteq> fst ` set df \<Longrightarrow> map fst (columns df names) = names"
proof (induction names)
  case Nil
  then show ?case by simp
next
  case (Cons n ns)
  then obtain v where "map_of df n = Some v"
    by (metis insert_subset list.simps(15) map_of_eq_None_iff not_Some_eq)
  with Cons show ?case by simp
qed

lemma missing_empty_iff:
  "filter (\<lambda>n. map_of df n = None) names = [] \<longleftrightarrow> set names \<subseteq> fst ` set df"
  by (auto simp: filter_empty_conv map_of_eq_None_iff)

lemma columns_nth:
  "set names \<subseteq> fst ` set df \<Longrightarrow> i < length names \<Longrightarrow>
     map_of df (names ! i) = Some (snd (columns df names ! i)) \<and>
     fst (columns df names ! i) = names ! i"
proof (induction names arbitrary: i)
  case Nil
  then show ?case by simp
next
  case (Cons n ns)
  then obtain v where v: "map_of df n = Some v"
    by (metis insert_subset list.simps(15) map_of_eq_None_iff not_Some_eq)
  show ?case
  proof (cases i)
    case 0
    with v show ?thesis by simp
  next
    case (Suc j)
    with Cons v show ?thesis by simp
  qed
qed

lemma columns_slot:
  assumes "set fn \<subseteq> fst ` set d" "i < length fn" "map_of d (fn ! i) = Some v"
  shows "columns d fn ! i = (fn ! i, v)"
  using columns_nth[OF assms(1,2)] assms(3) by (simp add: prod_eq_iff)

lemma columns_cong: "map_of d' = map_of d \<Longrightarrow> columns d' names = columns d names"
  by (induction names) (simp_all split: option.split)

lemma getitem_columns_cong:
  "map_of d' = map_of d \<Longrightarrow> getitem_columns d' names = getitem_columns d names"
  using columns_cong[of d' d names] by (simp add: getitem_columns_def Let_def)

lemma getitem_columns_Inr:
  "getitem_columns df names = Inr out \<longleftrightarrow> set names \<subseteq> fst ` set df \<and> out = columns df names"
  by (auto simp: getitem_columns_def Let_def missing_empty_iff[symmetric])

lemma missing_filter:
  "filter (\<lambda>n. map_of df n = None) names = filter (\<lambda>n. n \<notin> fst ` set df) names"
  by (simp add: map_of_eq_None_iff)

lemma all_missing_iff:
  "length (filter (\<lambda>n. n \<notin> A) names) = length names \<longleftrightarrow> set names \<inter> A = {}"
proof -
  have "length (filter (\<lambda>n. n \<notin> A) names) = length names \<longleftrightarrow> (\<forall>n\<in>set names. n \<notin> A)"
    by (metis filter_id_conv length_filter_less less_irrefl_nat filter_True)
  then show ?thesis by auto
qed

lemma getitem_columns_missing:
  assumes "\<not> set names \<subseteq> fst ` set df"
  shows "getitem_columns df names =
     Inl (KeyError
            (if set names \<inter> fst ` set df = {} then None_of names
             else Not_in_index (unique (filter (\<lambda>n. n \<notin> fst ` set df) names))))"
  using assms
  by (simp add: getitem_columns_def Let_def missing_filter all_missing_iff
      missing_empty_iff[unfolded missing_filter])

lemma input_data_keys: "map fst (input_data b m car) = features"
  by (simp add: input_data_def features_def)

lemma input_data_fst_set: "fst ` set (input_data b m car) = set features"
  using input_data_keys[of b m car] by (metis set_map)

lemma distinct_features: "distinct features"
  by (simp add: features_def)

lemma demo_training:
  "training_model (\<lambda>x_train y_train. Inr demo_forest) (Some demo_csv) =
     Inr \<lparr>car_price_model_pkl = Some demo_forest,
          brand_encoder_pkl = Some \<lparr>classes = Objects [''BMW'', ''Kia'']\<rparr>,
          model_encoder_pkl = Some \<lparr>classes = Objects [''Rio'', ''X1'']\<rparr>,
          feature_names_pkl = Some features\<rparr>"
  by (simp add: training_model_def df_encoded_def fit_transform_def df_clean_def demo_csv_def
      Let_def)


lemma demo_globals_eq:
  "demo_globals =
     \<lparr>globals.model = Some demo_forest,
      brand_encoder = Some \<lparr>classes = Objects [''BMW'', ''Kia'']\<rparr>,
      model_encoder = Some \<lparr>classes = Objects [''Rio'', ''X1'']\<rparr>,
      feature_names = Some features\<rparr>"
  by (simp add: demo_globals_def demo_training startup_after_def startup_def)


lemma demo_fields:
  "globals.model demo_globals = Some demo_forest"
  "brand_encoder demo_globals = Some \<lparr>classes = Objects [''BMW'', ''Kia'']\<rparr>"
  "model_encoder demo_globals = Some \<lparr>classes = Objects [''Rio'', ''X1'']\<rparr>"
  "feature_names demo_globals = Some features"
  by (simp_all add: demo_globals_eq)


lemma all_loaded_demo: "all_loaded demo_globals"
  by (simp add: demo_globals_eq all_loaded_def demo_forest_def features_def)



lemma predict_price_loaded:
  assumes "globals.model g = Some m" "brand_encoder g = Some be" "model_encoder g = Some me"
    "feature_names g = Some fn" "all_loaded g"
  shows "predict_price astype g now car =
     (case try_block astype m be me fn now car of
        Inl e \<Rightarrow> Inl (HTTPException 400 (Prediction_error e)) | Inr r \<Rightarrow> Inr r)"
  using assms by (simp add: predict_price_def)

lemma predict_price_not_loaded:
  "\<not> all_loaded g \<Longrightarrow> predict_price astype g now car = Inl not_loaded"
  by (simp add: predict_price_def)

lemma predict_price_status:
  "predict_price astype g now car = Inl (HTTPException s (Prediction_error e)) \<Longrightarrow> s = 400"
  by (auto simp: predict_price_def not_loaded_def split: if_splits option.splits sum.splits)

lemma startup_missing:
  "(globals.model (startup files) = None \<or> brand_encoder (startup files) = None \<or>
    model_encoder (startup files) = None \<or> feature_names (startup files) = None) =
   (car_price_model_pkl files = None \<or> brand_encoder_pkl files = None \<or>
    model_encoder_pkl files = None \<or> feature_names_pkl files = None)"
  by (simp add: startup_def)

lemma input_df_codes:
  assumes "transform_or_default astype be (brand car) = Inr b"
    and "transform_or_default astype me (model car) = Inr mo"
  shows "input_df astype be me fn car = getitem_columns (input_data b mo car) fn"
  using assms by (simp add: input_df_def)

lemma input_df_Inr:
  assumes "input_df astype be me fn car = Inr df"
  shows "\<exists>b mo. transform_or_default astype be (brand car) = Inr b \<and>
           transform_or_default astype me (model car) = Inr mo \<and>
           set fn \<subseteq> set features \<and> df = columns (input_data b mo car) fn"
  using assms
  by (auto simp: input_df_def getitem_columns_Inr input_data_fst_set split: sum.splits)

lemma try_block_eq:
  "input_df astype be me fn car = Inr df \<Longrightarrow>
     try_block astype m be me fn now car =
       (case predict m df of
          Inl e \<Rightarrow> Inl e
        | Inr v \<Rightarrow>
            (case py_int (max0 v) of
               Inl e \<Rightarrow> Inl e
             | Inr p \<Rightarrow>
                 Inr \<lparr>input = car, estimated_price_tnd = p,
                      message = ''Prediction successful'', timestamp = now\<rparr>))"
  by (simp add: try_block_def)

lemma request_succeeds:
  assumes "globals.model g = Some m" "brand_encoder g = Some be" "model_encoder g = Some me"
    "feature_names g = Some fn" "all_loaded g"
    and "input_df astype be me fn car = Inr df" and "predict m df = Inr (Finite x)"
  shows "predict_price astype g now car =
     Inr \<lparr>input = car, estimated_price_tnd = max 0 \<lfloor>x\<rfloor>,
          message = ''Prediction successful'', timestamp = now\<rparr>"
  using assms(6,7)
  by (simp add: predict_price_loaded[OF assms(1-5)] try_block_eq py_int_max0_Finite)

lemma predict_price_of_df:
  assumes "globals.model g = Some m" "brand_encoder g = Some be" "model_encoder g = Some me"
    "feature_names g = Some fn" "all_loaded g"
    and "input_df astype be me fn car = Inr df"
  shows "predict_price astype g now car =
     (case predict m df of
        Inl e \<Rightarrow> Inl (HTTPException 400 (Prediction_error e))
      | Inr v \<Rightarrow>
          (case py_int (max0 v) of
             Inl e \<Rightarrow> Inl (HTTPException 400 (Prediction_error e))
           | Inr p \<Rightarrow>
               Inr \<lparr>input = car, estimated_price_tnd = p,
                    message = ''Prediction successful'', timestamp = now\<rparr>))"
  using assms(6)
  by (simp add: predict_price_loaded[OF assms(1-5)] try_block_eq split: sum.splits)

lemma predict_price_of_missing:
  assumes "globals.model g = Some m" "brand_encoder g = Some be" "model_encoder g = Some me"
    "feature_names g = Some fn" "all_loaded g"
    and "input_df astype be me fn car = Inl e"
  shows "predict_price astype g now car = Inl (HTTPException 400 (Prediction_error e))"
  using assms(6)
  by (simp add: predict_price_loaded[OF assms(1-5)] try_block_def)


lemma map_of_reordered:
  assumes "distinct (map fst d)" "set d = set (input_data b mo car)"
  shows "map_of d = map_of (input_data b mo car)"
proof -
  have "distinct (map fst (input_data b mo car))"
    by (simp add: input_data_keys distinct_features)
  with assms show ?thesis by (simp add: map_of_inject_set)
qed

lemma input_data_lookup:
  "map_of (input_data b mo car) ''year'' = Some (2025 - year car)"
  "map_of (input_data b mo car) ''mileage'' = Some (mileage car)"
  "map_of (input_data b mo car) ''cv'' = Some (cv car)"
  "map_of (input_data b mo car) ''brand_encoded'' = Some b"
  "map_of (input_data b mo car) ''model_encoded'' = Some mo"
  by (simp_all add: input_data_def age_def)

lemmas eval_input_df =
  input_df_def transform_or_default_def transform_def position_def getitem_columns_def
  input_data_def features_def kia_rio_def age_def fuel_encoded_def fuel_mapping_def
  transmission_encoded_def

lemma kia_rio_df:
  "input_df astype \<lparr>classes = Objects [''BMW'', ''Kia'']\<rparr> \<lparr>classes = Objects [''Rio'', ''X1'']\<rparr>
     features kia_rio =
     Inr [(''year'', 5), (''mileage'', 85000), (''cv'', 5), (''fuel_type'', 0),
          (''transmission'', 0), (''brand_encoded'', 1), (''model_encoded'', 0)]"
  by (simp add: eval_input_df)

lemma kia_rio_prediction:
  "predict demo_forest
     [(''year'', 5), (''mileage'', 85000), (''cv'', 5), (''fuel_type'', 0),
      (''transmission'', 0), (''brand_encoded'', 1), (''model_encoded'', 0)] =
     Inr (Finite 14375.75)"
  by (simp add: demo_forest_def)

lemma length_labels: "length (str_labels ys) + length (int_labels ys) = length ys"
  by (induction ys rule: str_labels.induct) simp_all

lemma fit_transform_length:
  assumes "fit_transform ys = Inr (le, codes)"
  shows "length codes = length ys"
  using assms length_labels[of ys]
  by (auto simp: fit_transform_def Let_def split: if_splits)

lemma fit_transform_uniform:
  "int_labels ys = [] \<or> str_labels ys = [] \<Longrightarrow> \<exists>le codes. fit_transform ys = Inr (le, codes)"
  by (auto simp: fit_transform_def Let_def)

lemma X_row_eq:
  "columns (row_cells r b m) features =
     [(''year'', Num (listing.year r)), (''mileage'', Num (listing.mileage r)),
      (''cv'', Num (listing.cv r)), (''fuel_type'', Num (listing.fuel_type r)),
      (''transmission'', Num (listing.transmission r)),
      (''brand_encoded'', Num (of_int b)), (''model_encoded'', Num (of_int m))]"
  by (simp add: row_cells_def features_def)

lemma features_are_columns:
  "getitem_columns (row_cells r b m) features = Inr (columns (row_cells r b m) features)"
  by (simp add: getitem_columns_Inr) (simp add: row_cells_def features_def)

lemma df_encoded_rows:
  assumes "df_encoded csv = Inr (le_brand, le_model, df)"
  shows "length df = length (df_clean csv) \<and>
         (\<forall>i<length (df_clean csv). \<exists>b m. df ! i = row_cells (df_clean csv ! i) b m)"
proof -
  from assms obtain bs ms where
    b: "fit_transform (map listing.brand (df_clean csv)) = Inr (le_brand, bs)"
    and m: "fit_transform (map listing.model (df_clean csv)) = Inr (le_model, ms)"
    and df: "df = map (\<lambda>(r, b, m). row_cells r b m) (zip (df_clean csv) (zip bs ms))"
    by (auto simp: df_encoded_def Let_def split: sum.splits)
  have "length bs = length (df_clean csv)" "length ms = length (df_clean csv)"
    using fit_transform_length[OF b] fit_transform_length[OF m] by simp_all
  then show ?thesis unfolding df by auto
qed

lemma X_features_rows:
  assumes "X_features csv = Inr x"
  shows "length x = length (df_clean csv) \<and>
         (\<forall>i<length (df_clean csv).
            map_of (x ! i) ''year'' = Some (Num (listing.year (df_clean csv ! i))))"
proof -
  from assms obtain le_brand le_model df where
    enc: "df_encoded csv = Inr (le_brand, le_model, df)"
    and x: "x = map (\<lambda>row. columns row features) df"
    by (auto simp: X_features_def split: sum.splits)
  note rows = df_encoded_rows[OF enc]
  have "map_of (x ! i) ''year'' = Some (Num (listing.year (df_clean csv ! i)))"
    if "i < length (df_clean csv)" for i
  proof -
    from rows that obtain b m where "df ! i = row_cells (df_clean csv ! i) b m" by blast
    with rows that show ?thesis unfolding x by (simp add: X_row_eq)
  qed
  with rows show ?thesis unfolding x by simp
qed

lemma X_features_uniform:
  assumes "int_labels (map listing.brand (df_clean csv)) = [] \<or>
           str_labels (map listing.brand (df_clean csv)) = []"
    and "int_labels (map listing.model (df_clean csv)) = [] \<or>
         str_labels (map listing.model (df_clean csv)) = []"
  shows "\<exists>x. X_features csv = Inr x"
  using fit_transform_uniform[OF assms(1)] fit_transform_uniform[OF assms(2)]
  by (auto simp: X_features_def df_encoded_def Let_def)

lemma training_model_saved:
  assumes "training_model train file = Inr files"
  shows "feature_names_pkl files = Some features \<and>
         (\<exists>csv. file = Some csv \<and> 2 \<le> length (df_clean csv))"
proof -
  from assms obtain csv where csv: "file = Some csv"
    by (cases "file") (simp_all add: training_model_def)
  from assms csv obtain le_brand le_model df where
    enc: "df_encoded csv = Inr (le_brand, le_model, df)"
    by (auto simp: training_model_def split: sum.splits)
  note rows = df_encoded_rows[OF enc]
  from assms csv enc rows show ?thesis
    by (auto simp: training_model_def Let_def split: if_splits sum.splits)
qed

lemma input_df_total:
  assumes "set fn \<subseteq> set features"
    and "\<forall>e. transform astype be (brand car) = Inl e \<longrightarrow> e = ValueError"
    and "\<forall>e. transform astype me (model car) = Inl e \<longrightarrow> e = ValueError"
  shows "\<exists>b mo. transform_or_default astype be (brand car) = Inr b \<and>
           transform_or_default astype me (model car) = Inr mo \<and>
           (transform astype be (brand car) = Inl ValueError \<longrightarrow> b = - 1) \<and>
           (\<forall>c. transform astype be (brand car) = Inr c \<longrightarrow> b = c) \<and>
           (transform astype me (model car) = Inl ValueError \<longrightarrow> mo = - 1) \<and>
           (\<forall>c. transform astype me (model car) = Inr c \<longrightarrow> mo = c) \<and>
           input_df astype be me fn car = Inr (columns (input_data b mo car) fn)"
proof -
  obtain b where b: "transform_or_default astype be (brand car) = Inr b"
    "transform astype be (brand car) = Inl ValueError \<longrightarrow> b = - 1"
    "\<forall>c. transform astype be (brand car) = Inr c \<longrightarrow> b = c"
    using transform_or_default_Inr[OF assms(2)] by blast
  obtain mo where mo: "transform_or_default astype me (model car) = Inr mo"
    "transform astype me (model car) = Inl ValueError \<longrightarrow> mo = - 1"
    "\<forall>c. transform astype me (model car) = Inr c \<longrightarrow> mo = c"
    using transform_or_default_Inr[OF assms(3)] by blast
  have "input_df astype be me fn car = Inr (columns (input_data b mo car) fn)"
    using assms(1) by (simp add: input_df_codes[OF b(1) mo(1)] getitem_columns_Inr input_data_fst_set)
  with b mo show ?thesis by blast
qed

lemma input_df_missing:
  assumes "\<not> set fn \<subseteq> set features"
    and "transform_or_default astype be (brand car) = Inr b"
    and "transform_or_default astype me (model car) = Inr mo"
  shows "input_df astype be me fn car =
     Inl (KeyError
            (if set fn \<inter> set features = {} then None_of fn
             else Not_in_index (unique (filter (\<lambda>n. n \<notin> set features) fn))))"
  using getitem_columns_missing[of fn "input_data b mo car"] assms(1)
  by (simp add: input_df_codes[OF assms(2,3)] input_data_fst_set)

lemma future_car_df:
  "input_df astype \<lparr>classes = Objects [''BMW'', ''Kia'']\<rparr> \<lparr>classes = Objects [''Rio'', ''X1'']\<rparr>
     features (kia_rio\<lparr>year := 2030\<rparr>) =
     Inr [(''year'', - 5), (''mileage'', 85000), (''cv'', 5), (''fuel_type'', 0),
          (''transmission'', 0), (''brand_encoded'', 1), (''model_encoded'', 0)]"
  by (simp add: eval_input_df)

lemma negative_car_df:
  "input_df astype \<lparr>classes = Objects [''BMW'', ''Kia'']\<rparr> \<lparr>classes = Objects [''Rio'', ''X1'']\<rparr>
     features (kia_rio\<lparr>mileage := - 8000, cv := - 3\<rparr>) =
     Inr [(''year'', 5), (''mileage'', - 8000), (''cv'', - 3), (''fuel_type'', 0),
          (''transmission'', 0), (''brand_encoded'', 1), (''model_encoded'', 0)]"
  by (simp add: eval_input_df)

lemma demo_only_ValueError:
  "\<forall>e. transform astype \<lparr>classes = Objects cs\<rparr> s = Inl e \<longrightarrow> e = ValueError"
  by (simp add: transform_def)

lemma input_df_missing_some:
  assumes "\<not> set fn \<subseteq> set features"
  shows "\<exists>e. input_df astype be me fn car = Inl e"
proof (cases "transform_or_default astype be (brand car)")
  case (Inl e)
  then show ?thesis by (simp add: input_df_def)
next
  case b: (Inr b)
  show ?thesis
  proof (cases "transform_or_default astype me (model car)")
    case (Inl e)
    with b show ?thesis by (simp add: input_df_def)
  next
    case (Inr mo)
    from input_df_missing[OF assms b Inr] show ?thesis by blast
  qed
qed

lemma reversed_df:
  "input_df astype \<lparr>classes = Objects [''BMW'', ''Kia'']\<rparr> \<lparr>classes = Objects [''Rio'', ''X1'']\<rparr>
     (rev features) kia_rio =
     Inr [(''model_encoded'', 0), (''brand_encoded'', 1), (''transmission'', 0),
          (''fuel_type'', 0), (''cv'', 5), (''mileage'', 85000), (''year'', 5)]"
  by (simp add: eval_input_df)

lemma kia_rio_codes:
  "transform_or_default astype \<lparr>classes = Objects [''BMW'', ''Kia'']\<rparr> (brand kia_rio) = Inr 1"
  "transform_or_default astype \<lparr>classes = Objects [''Rio'', ''X1'']\<rparr> (model kia_rio) = Inr 0"
  by (simp_all add: transform_or_default_def transform_def position_def kia_rio_def)




section \<open>The encoding tables\<close>

text \<open>
  C7. The fuel mapping is total over strings: every string gets one code among 0, 1 and 2;
  "Essence" gets 0, "Diesel" 1 and "Hybrid" 2, every other string gets 0; and that code is
  what the request's record holds under \<open>fuel_type\<close>.
\<close>

theorem fuel_mapping_total:
  "fuel_encoded f \<in> {0, 1, 2} \<and>
   fuel_encoded ''Essence'' = 0 \<and> fuel_encoded ''Diesel'' = 1 \<and> fuel_encoded ''Hybrid'' = 2 \<and>
   (f \<notin> {''Essence'', ''Diesel'', ''Hybrid''} \<longrightarrow> fuel_encoded f = 0) \<and>
   input_data b m car ! 3 = (''fuel_type'', fuel_encoded (fuel_type car))"
  by (simp add: fuel_encoded_def fuel_mapping_def input_data_def)

theorem fuel_mapping_total_witness:
  "''GPL'' \<notin> {''Essence'', ''Diesel'', ''Hybrid''} \<and> fuel_encoded ''GPL'' = 0 \<and>
   fuel_encoded ''GPL'' \<in> {0, 1, 2}"
  using fuel_mapping_total [of "''GPL''"] by simp

text \<open>
  C8. The transmission mapping is binary and total over strings: the code is 1 exactly for
  the string "Automatique" and 0 for every other string; that code is what the request's
  record holds under \<open>transmission\<close>.
\<close>

theorem transmission_binary:
  "(transmission_encoded t = 1 \<longleftrightarrow> t = ''Automatique'') \<and>
   (transmission_encoded t = 0 \<longleftrightarrow> t \<noteq> ''Automatique'') \<and>
   transmission_encoded t \<in> {0, 1} \<and>
   input_data b m car ! 4 = (''transmission'', transmission_encoded (transmission car))"
  by (simp add: transmission_encoded_def input_data_def)

theorem transmission_binary_witness:
  "transmission_encoded ''Automatique'' = 1 \<and> transmission_encoded ''Manuelle'' = 0 \<and>
   transmission_encoded ''automatique'' = 0"
  using transmission_binary [of "''Automatique''"] transmission_binary [of "''Manuelle''"]
    transmission_binary [of "''automatique''"]
  by simp

section \<open>Readiness of the artifacts\<close>

text \<open>
  C3. When the regressor, one of the two encoders or the list of feature names is absent
  (its file was not there at start-up), every request fails with the HTTP exception of
  status 500 and the fixed "not loaded" text, whatever the request holds: the check comes
  before anything is read from the request. The status differs from the one that goes with
  a prediction error, which is never 500. The globals are \<open>None\<close> exactly for the files
  that start-up did not find (\<open>startup_missing\<close>), which are all four when the training
  script stopped before writing.
\<close>

theorem missing_artifact_service_unavailable:
  assumes "globals.model g = None \<or> brand_encoder g = None \<or>
           model_encoder g = None \<or> feature_names g = None"
  shows "predict_price astype g now car =
           Inl (HTTPException 500
                  (Text ''Model or encoders not loaded. Run training_model.py first.'')) \<and>
         (\<forall>astype' g' now' car' s e.
            predict_price astype' g' now' car' = Inl (HTTPException s (Prediction_error e)) \<longrightarrow>
            s \<noteq> 500)"
proof -
  have "\<not> all_loaded g"
    using assms by (auto simp: all_loaded_def)
  then have "predict_price astype g now car = Inl not_loaded"
    by (rule predict_price_not_loaded)
  moreover have "s \<noteq> 500"
    if "predict_price astype' g' now' car' = Inl (HTTPException s (Prediction_error e))"
    for astype' g' now' car' s e
    using predict_price_status[OF that] by simp
  ultimately show ?thesis by (simp add: not_loaded_def)
qed

theorem missing_artifact_service_unavailable_witness:
  "predict_price demo_astype
     (startup_after (training_model (\<lambda>x_train y_train. Inr demo_forest) None))
     demo_now kia_rio =
   Inl (HTTPException 500 (Text ''Model or encoders not loaded. Run training_model.py first.'')) \<and>
   predict_price demo_astype (startup (no_files\<lparr>car_price_model_pkl := Some demo_forest\<rparr>))
     demo_now kia_rio =
   Inl (HTTPException 500 (Text ''Model or encoders not loaded. Run training_model.py first.''))"
  using missing_artifact_service_unavailable
    [of "startup_after (training_model (\<lambda>x_train y_train. Inr demo_forest) None)"
        demo_astype demo_now kia_rio]
    missing_artifact_service_unavailable
    [of "startup (no_files\<lparr>car_price_model_pkl := Some demo_forest\<rparr>)"
        demo_astype demo_now kia_rio]
  by (simp add: startup_missing startup_after_def training_model_def no_files_def)

section \<open>The served price\<close>

text \<open>
  C4 as stated (the served price is \<open>max(0, round(v))\<close>) fails: the example regressor
  returns 14375.75 for the example request, the served price is 14375, and rounding gives
  14376.
\<close>

theorem served_price_rounds_counterexample:
  "predict_price demo_astype demo_globals demo_now kia_rio =
     Inr \<lparr>input = kia_rio, estimated_price_tnd = 14375,
          message = ''Prediction successful'', timestamp = demo_now\<rparr> \<and>
   input_df demo_astype \<lparr>classes = Objects [''BMW'', ''Kia'']\<rparr>
     \<lparr>classes = Objects [''Rio'', ''X1'']\<rparr> features kia_rio =
     Inr [(''year'', 5), (''mileage'', 85000), (''cv'', 5), (''fuel_type'', 0),
          (''transmission'', 0), (''brand_encoded'', 1), (''model_encoded'', 0)] \<and>
   predict demo_forest
     [(''year'', 5), (''mileage'', 85000), (''cv'', 5), (''fuel_type'', 0),
      (''transmission'', 0), (''brand_encoded'', 1), (''model_encoded'', 0)] =
     Inr (Finite 14375.75) \<and>
   max 0 (round (14375.75 :: real)) = 14376"
  using request_succeeds [OF demo_fields all_loaded_demo kia_rio_df kia_rio_prediction,
      of demo_astype demo_now]
  by (simp add: kia_rio_df kia_rio_prediction round_def)

text \<open>
  C4, amended. When the regressor returns a finite number \<open>x\<close> for the request's feature
  vector, the request succeeds and the served price is \<open>int(max(0, x))\<close>, that is the
  larger of 0 and the floor of \<open>x\<close>: never negative, the fractional part dropped.
\<close>

theorem served_price_truncates:
  assumes "globals.model g = Some m" "brand_encoder g = Some be" "model_encoder g = Some me"
    "feature_names g = Some fn" "all_loaded g"
    and "input_df astype be me fn car = Inr df" and "predict m df = Inr (Finite x)"
  shows "predict_price astype g now car =
           Inr \<lparr>input = car, estimated_price_tnd = max 0 \<lfloor>x\<rfloor>,
                message = ''Prediction successful'', timestamp = now\<rparr> \<and>
         0 \<le> max 0 \<lfloor>x\<rfloor> \<and> py_int (max0 (Finite x)) = Inr (max 0 \<lfloor>x\<rfloor>)"
  using request_succeeds[OF assms] by (simp add: py_int_max0_Finite)

theorem served_price_truncates_witness:
  "predict_price demo_astype demo_globals demo_now kia_rio =
     Inr \<lparr>input = kia_rio, estimated_price_tnd = 14375,
          message = ''Prediction successful'', timestamp = demo_now\<rparr>"
  using served_price_truncates
    [OF demo_fields all_loaded_demo kia_rio_df kia_rio_prediction, of demo_astype demo_now]
  by simp

section \<open>The age feature and the slot named year\<close>

text \<open>
  C5. For every integer year the age is \<open>2025 - year\<close>, negative when the year is after
  2025. Nothing rejects such a request: with the artifacts loaded, feature names among the
  seven that the request's record holds, and encoders whose \<open>transform\<close> raises nothing but
  ValueError on the request (always so for an encoder of strings), the vector is built,
  holds the age wherever the name \<open>year\<close> stands, and the request succeeds whenever the
  regressor returns a finite number for that vector.
\<close>

theorem age_from_reference_year:
  assumes "globals.model g = Some m" "brand_encoder g = Some be" "model_encoder g = Some me"
    "feature_names g = Some fn" "all_loaded g"
    and "set fn \<subseteq> set features"
    and "\<forall>e. transform astype be (brand car) = Inl e \<longrightarrow> e = ValueError"
    and "\<forall>e. transform astype me (model car) = Inl e \<longrightarrow> e = ValueError"
  shows "age (year car) = 2025 - year car \<and>
         (2025 < year car \<longrightarrow> age (year car) < 0) \<and>
         (\<exists>df. input_df astype be me fn car = Inr df \<and>
            (\<forall>i<length fn. fn ! i = ''year'' \<longrightarrow> df ! i = (''year'', 2025 - year car)) \<and>
            (\<forall>x. predict m df = Inr (Finite x) \<longrightarrow>
               predict_price astype g now car =
                 Inr \<lparr>input = car, estimated_price_tnd = max 0 \<lfloor>x\<rfloor>,
                      message = ''Prediction successful'', timestamp = now\<rparr>))"
proof -
  obtain b mo where df: "input_df astype be me fn car = Inr (columns (input_data b mo car) fn)"
    using input_df_total[OF assms(6-8)] by blast
  let ?df = "columns (input_data b mo car) fn"
  have sub: "set fn \<subseteq> fst ` set (input_data b mo car)"
    using assms(6) by (simp add: input_data_fst_set)
  have "?df ! i = (''year'', 2025 - year car)" if "i < length fn" "fn ! i = ''year''" for i
    using columns_nth[OF sub that(1)] that(2)
    by (simp add: input_data_lookup prod_eq_iff)
  moreover have "predict_price astype g now car =
      Inr \<lparr>input = car, estimated_price_tnd = max 0 \<lfloor>x\<rfloor>,
           message = ''Prediction successful'', timestamp = now\<rparr>"
    if "predict m ?df = Inr (Finite x)" for x
    using request_succeeds[OF assms(1-5) df that] .
  ultimately show ?thesis using df by (simp add: age_def)
qed

theorem age_from_reference_year_witness:
  "age 2030 = - 5 \<and>
   predict_price demo_astype demo_globals demo_now (kia_rio\<lparr>year := 2030\<rparr>) =
     Inr \<lparr>input = kia_rio\<lparr>year := 2030\<rparr>, estimated_price_tnd = 24375,
          message = ''Prediction successful'', timestamp = demo_now\<rparr>"
proof -
  let ?car = "kia_rio\<lparr>year := 2030\<rparr>"
  from age_from_reference_year
    [where astype = demo_astype and car = "kia_rio\<lparr>year := 2030\<rparr>" and now = demo_now,
     OF demo_fields all_loaded_demo subset_refl demo_only_ValueError demo_only_ValueError]
  obtain df where
    a: "input_df demo_astype \<lparr>classes = Objects [''BMW'', ''Kia'']\<rparr>
          \<lparr>classes = Objects [''Rio'', ''X1'']\<rparr> features ?car = Inr df"
    and b: "\<And>x. predict demo_forest df = Inr (Finite x) \<Longrightarrow>
      predict_price demo_astype demo_globals demo_now ?car =
        Inr \<lparr>input = ?car, estimated_price_tnd = max 0 \<lfloor>x\<rfloor>,
             message = ''Prediction successful'', timestamp = demo_now\<rparr>"
    by blast
  from a have "predict demo_forest df = Inr (Finite 24375.75)"
    by (auto simp: future_car_df demo_forest_def)
  from b [OF this] show ?thesis by (simp add: age_def)
qed

text \<open>
  C6. In training, whenever the script gets as far as the feature table (it does unless a
  label column mixes strings and numbers), the column \<open>year\<close> of the table holds the
  calendar year of each kept listing. In serving, the record binds the name \<open>year\<close> to
  \<open>2025 - year\<close>, and so does every position of the feature vector where the persisted list
  has the name \<open>year\<close>; that value is never the calendar year itself, since 2025 is odd.
\<close>

theorem year_slot_holds_age:
  "(\<forall>x. X_features csv = Inr x \<longrightarrow>
      length x = length (df_clean csv) \<and>
      (\<forall>i<length (df_clean csv).
         map_of (x ! i) ''year'' = Some (Num (listing.year (df_clean csv ! i))))) \<and>
   ((int_labels (map listing.brand (df_clean csv)) = [] \<or>
     str_labels (map listing.brand (df_clean csv)) = []) \<and>
    (int_labels (map listing.model (df_clean csv)) = [] \<or>
     str_labels (map listing.model (df_clean csv)) = []) \<longrightarrow>
    (\<exists>x. X_features csv = Inr x)) \<and>
   map_of (input_data b mo car) ''year'' = Some (2025 - year car) \<and>
   2025 - year car \<noteq> year car \<and>
   (\<forall>df. input_df astype be me fn car = Inr df \<longrightarrow>
      (\<forall>i<length fn. fn ! i = ''year'' \<longrightarrow>
         df ! i = (''year'', 2025 - year car) \<and> snd (df ! i) \<noteq> year car))"
proof -
  have odd: "2025 - year car \<noteq> year car" by presburger
  have "df ! i = (''year'', 2025 - year car)"
    if "input_df astype be me fn car = Inr df" "i < length fn" "fn ! i = ''year''" for df i
  proof -
    from input_df_Inr[OF that(1)] obtain b' mo' where
      sub': "set fn \<subseteq> set features" and eq: "df = columns (input_data b' mo' car) fn"
      by blast
    from sub' have sub: "set fn \<subseteq> fst ` set (input_data b' mo' car)"
      by (simp add: input_data_fst_set)
    show ?thesis
      using columns_nth[OF sub that(2)] that(3) unfolding eq
      by (simp add: input_data_lookup prod_eq_iff)
  qed
  then show ?thesis
    using odd X_features_rows[of csv] X_features_uniform[of csv]
    by (simp add: input_data_lookup)
qed

theorem year_slot_holds_age_witness:
  "(\<exists>x. X_features demo_csv = Inr x \<and> map_of (x ! 0) ''year'' = Some (Num 2020)) \<and>
   (\<exists>df. input_df demo_astype \<lparr>classes = Objects [''BMW'', ''Kia'']\<rparr>
            \<lparr>classes = Objects [''Rio'', ''X1'']\<rparr> features kia_rio = Inr df \<and>
      df ! 0 = (''year'', 5)) \<and>
   year kia_rio = 2020"
proof -
  have len: "(0::nat) < length (df_clean demo_csv)" "(0::nat) < length features"
    "features ! 0 = ''year''" "year kia_rio = 2020"
    "listing.year (df_clean demo_csv ! 0) = 2020"
    "int_labels (map listing.brand (df_clean demo_csv)) = []"
    "int_labels (map listing.model (df_clean demo_csv)) = []"
    by (simp_all add: df_clean_def demo_csv_def features_def kia_rio_def)
  from year_slot_holds_age [of demo_csv 0 0 kia_rio demo_astype
      "\<lparr>classes = Objects [''BMW'', ''Kia'']\<rparr>" "\<lparr>classes = Objects [''Rio'', ''X1'']\<rparr>" features]
    len kia_rio_df[of demo_astype]
  show ?thesis by auto
qed

section \<open>The feature vector\<close>

text \<open>
  C1. With the artifacts loaded, a persisted list whose names are keys of the request's
  record, in any order, and \<open>b\<close> and \<open>mo\<close> the codes that the two encodings return, the
  column selection succeeds and the frame handed to the regressor has exactly the persisted
  names as its column labels, in their order; each position holds the value that the
  record binds to the name at that position; the frame is the same for any other insertion
  order of the record; and the outcome of the request is determined by what the regressor
  returns on that frame. Whenever the training script writes its files, the list it saves,
  and start-up loads, is \<open>features\<close>.
\<close>

theorem feature_vector_in_persisted_order:
  assumes "globals.model g = Some m" "brand_encoder g = Some be" "model_encoder g = Some me"
    "feature_names g = Some fn" "all_loaded g"
    and "set fn \<subseteq> set features"
    and "transform_or_default astype be (brand car) = Inr b"
    and "transform_or_default astype me (model car) = Inr mo"
  shows "(\<exists>df. input_df astype be me fn car = Inr df \<and>
            map fst df = fn \<and>
            (\<forall>i<length fn. map_of (input_data b mo car) (fn ! i) = Some (snd (df ! i))) \<and>
            (\<forall>d. distinct (map fst d) \<and> set d = set (input_data b mo car) \<longrightarrow>
               getitem_columns d fn = Inr df) \<and>
            predict_price astype g now car =
              (case predict m df of
                 Inl e \<Rightarrow> Inl (HTTPException 400 (Prediction_error e))
               | Inr v \<Rightarrow>
                   (case py_int (max0 v) of
                      Inl e \<Rightarrow> Inl (HTTPException 400 (Prediction_error e))
                    | Inr p \<Rightarrow>
                        Inr \<lparr>input = car, estimated_price_tnd = p,
                             message = ''Prediction successful'', timestamp = now\<rparr>))) \<and>
         (\<forall>files. training_model train listings = Inr files \<longrightarrow>
            feature_names (startup files) = Some features)"
proof -
  let ?d = "input_data b mo car"
  let ?df = "columns ?d fn"
  have sub: "set fn \<subseteq> fst ` set ?d"
    using assms(6) by (simp add: input_data_fst_set)
  have get: "getitem_columns ?d fn = Inr ?df"
    using sub by (simp add: getitem_columns_Inr)
  have df: "input_df astype be me fn car = Inr ?df"
    using get by (simp add: input_df_codes[OF assms(7,8)])
  have names: "map fst ?df = fn"
    using sub by (rule columns_fst)
  have vals: "\<forall>i<length fn. map_of ?d (fn ! i) = Some (snd (?df ! i))"
    using columns_nth[OF sub] by blast
  have perm: "\<forall>d. distinct (map fst d) \<and> set d = set ?d \<longrightarrow> getitem_columns d fn = Inr ?df"
  proof (intro allI impI)
    fix d assume "distinct (map fst d) \<and> set d = set ?d"
    then have "map_of d = map_of ?d" by (simp add: map_of_reordered)
    from getitem_columns_cong[OF this] get show "getitem_columns d fn = Inr ?df" by simp
  qed
  have saved: "\<forall>files. training_model train listings = Inr files \<longrightarrow>
      feature_names (startup files) = Some features"
    using training_model_saved[of train listings] by (simp add: startup_def)
  from df names vals perm predict_price_of_df[OF assms(1-5) df, of now] saved
  show ?thesis by blast
qed

theorem feature_vector_in_persisted_order_witness:
  "input_df demo_astype \<lparr>classes = Objects [''BMW'', ''Kia'']\<rparr>
     \<lparr>classes = Objects [''Rio'', ''X1'']\<rparr> (rev features) kia_rio =
     Inr [(''model_encoded'', 0), (''brand_encoded'', 1), (''transmission'', 0),
          (''fuel_type'', 0), (''cv'', 5), (''mileage'', 85000), (''year'', 5)] \<and>
   map fst [(''model_encoded'', 0 :: int), (''brand_encoded'', 1), (''transmission'', 0),
          (''fuel_type'', 0), (''cv'', 5), (''mileage'', 85000), (''year'', 5)] = rev features \<and>
   map fst (input_data 1 0 kia_rio) = features \<and>
   predict_price demo_astype (demo_globals\<lparr>feature_names := Some (rev features)\<rparr>) demo_now
     kia_rio =
     Inr \<lparr>input = kia_rio, estimated_price_tnd = 14375,
          message = ''Prediction successful'', timestamp = demo_now\<rparr>"
proof -
  let ?g = "demo_globals\<lparr>feature_names := Some (rev features)\<rparr>"
  let ?df = "[(''model_encoded'', 0 :: int), (''brand_encoded'', 1), (''transmission'', 0),
          (''fuel_type'', 0), (''cv'', 5), (''mileage'', 85000), (''year'', 5)]"
  have l: "all_loaded ?g"
    by (simp add: all_loaded_def demo_globals_eq demo_forest_def features_def)
  have f: "globals.model ?g = Some demo_forest"
    "brand_encoder ?g = Some \<lparr>classes = Objects [''BMW'', ''Kia'']\<rparr>"
    "model_encoder ?g = Some \<lparr>classes = Objects [''Rio'', ''X1'']\<rparr>"
    "feature_names ?g = Some (rev features)"
    by (simp_all add: demo_fields)
  have sub: "set (rev features) \<subseteq> set features" by simp
  from feature_vector_in_persisted_order
    [where astype = demo_astype and now = demo_now, OF f l sub kia_rio_codes]
  obtain df where
    a: "input_df demo_astype \<lparr>classes = Objects [''BMW'', ''Kia'']\<rparr>
          \<lparr>classes = Objects [''Rio'', ''X1'']\<rparr> (rev features) kia_rio = Inr df"
    and n: "map fst df = rev features"
    and p: "predict_price demo_astype ?g demo_now kia_rio =
              (case predict demo_forest df of
                 Inl e \<Rightarrow> Inl (HTTPException 400 (Prediction_error e))
               | Inr v \<Rightarrow>
                   (case py_int (max0 v) of
                      Inl e \<Rightarrow> Inl (HTTPException 400 (Prediction_error e))
                    | Inr p \<Rightarrow>
                        Inr \<lparr>input = kia_rio, estimated_price_tnd = p,
                             message = ''Prediction successful'', timestamp = demo_now\<rparr>))"
    by blast
  from a have df: "df = ?df" by (simp add: reversed_df)
  have "predict demo_forest ?df = Inr (Finite 14375.75)"
    by (simp add: demo_forest_def)
  with p n show ?thesis
    unfolding df by (simp add: reversed_df py_int_max0_Finite input_data_keys)
qed

section \<open>Categories unseen in training\<close>




section \<open>A feature name that the record does not have\<close>

text \<open>
  C9 as stated fails: a feature name that the record lacks does not give a failure of its
  own kind. The request fails with status 400 and a "Prediction error" detail, exactly as it
  does when the regressor raises.
\<close>

theorem schema_mismatch_counterexample:
  "predict_price demo_astype (demo_globals\<lparr>feature_names := Some [''year'', ''color'']\<rparr>)
     demo_now kia_rio =
     Inl (HTTPException 400 (Prediction_error (KeyError (Not_in_index [''color''])))) \<and>
   predict_price demo_astype (demo_globals\<lparr>feature_names := Some [''year'']\<rparr>) demo_now kia_rio =
     Inl (HTTPException 400 (Prediction_error (Exception ''feature names do not match'')))"
proof -
  let ?g1 = "demo_globals\<lparr>feature_names := Some [''year'', ''color'']\<rparr>"
  let ?g2 = "demo_globals\<lparr>feature_names := Some [''year'']\<rparr>"
  let ?be = "\<lparr>classes = Objects [''BMW'', ''Kia'']\<rparr>"
    and ?me = "\<lparr>classes = Objects [''Rio'', ''X1'']\<rparr>"
  have l1: "all_loaded ?g1" and l2: "all_loaded ?g2"
    by (simp_all add: all_loaded_def demo_globals_eq demo_forest_def)
  have f1: "globals.model ?g1 = Some demo_forest" "brand_encoder ?g1 = Some ?be"
    "model_encoder ?g1 = Some ?me" "feature_names ?g1 = Some [''year'', ''color'']"
    by (simp_all add: demo_fields)
  have f2: "globals.model ?g2 = Some demo_forest" "brand_encoder ?g2 = Some ?be"
    "model_encoder ?g2 = Some ?me" "feature_names ?g2 = Some [''year'']"
    by (simp_all add: demo_fields)
  have d1: "input_df demo_astype ?be ?me [''year'', ''color''] kia_rio =
      Inl (KeyError (Not_in_index [''color'']))"
    by (simp add: eval_input_df unique_def)
  have d2: "input_df demo_astype ?be ?me [''year''] kia_rio = Inr [(''year'', 5)]"
    by (simp add: eval_input_df)
  have p2: "predict demo_forest [(''year'', 5)] = Inl (Exception ''feature names do not match'')"
    by (simp add: demo_forest_def)
  show ?thesis
    using predict_price_of_missing[OF f1 l1 d1, of demo_now]
      predict_price_of_df[OF f2 l2 d2, of demo_now] p2
    by simp
qed

text \<open>
  C9, amended. When the persisted list has a name that is not a key of the request's
  record, the request fails with the HTTP exception of status 400 and a "Prediction error"
  detail, which is not the "not loaded" failure of status 500. When the two encodings
  raise nothing but ValueError, the error in the detail is the KeyError of the column
  selection, with the message that pandas gives it.
\<close>

theorem missing_field_is_prediction_error:
  assumes "globals.model g = Some m" "brand_encoder g = Some be" "model_encoder g = Some me"
    "feature_names g = Some fn" "all_loaded g"
    and "\<not> set fn \<subseteq> set features"
  shows "(\<exists>e. predict_price astype g now car = Inl (HTTPException 400 (Prediction_error e))) \<and>
         predict_price astype g now car \<noteq> Inl not_loaded \<and>
         filter (\<lambda>n. n \<notin> set features) fn \<noteq> [] \<and>
         ((\<forall>e. transform astype be (brand car) = Inl e \<longrightarrow> e = ValueError) \<and>
          (\<forall>e. transform astype me (model car) = Inl e \<longrightarrow> e = ValueError) \<longrightarrow>
          predict_price astype g now car =
            Inl (HTTPException 400
                   (Prediction_error
                      (KeyError
                         (if set fn \<inter> set features = {} then None_of fn
                          else Not_in_index (unique (filter (\<lambda>n. n \<notin> set features) fn)))))))"
proof -
  obtain e where e: "input_df astype be me fn car = Inl e"
    using input_df_missing_some[OF assms(6)] by blast
  have fail: "predict_price astype g now car = Inl (HTTPException 400 (Prediction_error e))"
    using predict_price_of_missing[OF assms(1-5) e] .
  have ne: "filter (\<lambda>n. n \<notin> set features) fn \<noteq> []"
    using assms(6) by (auto simp: filter_empty_conv)
  have key: "predict_price astype g now car =
      Inl (HTTPException 400
             (Prediction_error
                (KeyError
                   (if set fn \<inter> set features = {} then None_of fn
                    else Not_in_index (unique (filter (\<lambda>n. n \<notin> set features) fn))))))"
    if hb: "\<forall>e. transform astype be (brand car) = Inl e \<longrightarrow> e = ValueError"
      and hm: "\<forall>e. transform astype me (model car) = Inl e \<longrightarrow> e = ValueError"
  proof -
    obtain b where b: "transform_or_default astype be (brand car) = Inr b"
      using transform_or_default_Inr[OF hb] by blast
    obtain mo where mo: "transform_or_default astype me (model car) = Inr mo"
      using transform_or_default_Inr[OF hm] by blast
    show ?thesis
      using predict_price_of_missing[OF assms(1-5) input_df_missing[OF assms(6) b mo]] .
  qed
  from fail ne key show ?thesis by (simp add: not_loaded_def)
qed

theorem missing_field_is_prediction_error_witness:
  "predict_price demo_astype
     (demo_globals\<lparr>feature_names := Some [''color'', ''year'', ''doors'', ''color'']\<rparr>)
     demo_now kia_rio =
     Inl (HTTPException 400 (Prediction_error (KeyError (Not_in_index [''color'', ''doors''])))) \<and>
   predict_price demo_astype (demo_globals\<lparr>feature_names := Some [''color'', ''color'']\<rparr>)
     demo_now kia_rio =
     Inl (HTTPException 400 (Prediction_error (KeyError (None_of [''color'', ''color'']))))"
proof -
  let ?g = "demo_globals\<lparr>feature_names := Some [''color'', ''year'', ''doors'', ''color'']\<rparr>"
  let ?h = "demo_globals\<lparr>feature_names := Some [''color'', ''color'']\<rparr>"
  have l: "all_loaded ?g" "all_loaded ?h"
    by (simp_all add: all_loaded_def demo_globals_eq demo_forest_def)
  have f: "globals.model ?g = Some demo_forest"
    "brand_encoder ?g = Some \<lparr>classes = Objects [''BMW'', ''Kia'']\<rparr>"
    "model_encoder ?g = Some \<lparr>classes = Objects [''Rio'', ''X1'']\<rparr>"
    "feature_names ?g = Some [''color'', ''year'', ''doors'', ''color'']"
    by (simp_all add: demo_fields)
  have h: "globals.model ?h = Some demo_forest"
    "brand_encoder ?h = Some \<lparr>classes = Objects [''BMW'', ''Kia'']\<rparr>"
    "model_encoder ?h = Some \<lparr>classes = Objects [''Rio'', ''X1'']\<rparr>"
    "feature_names ?h = Some [''color'', ''color'']"
    by (simp_all add: demo_fields)
  have n: "\<not> set [''color'', ''year'', ''doors'', ''color''] \<subseteq> set features"
    "\<not> set [''color'', ''color''] \<subseteq> set features"
    by (simp_all add: features_def)
  from missing_field_is_prediction_error
      [where astype = demo_astype and now = demo_now and car = kia_rio, OF f l(1) n(1)]
    missing_field_is_prediction_error
      [where astype = demo_astype and now = demo_now and car = kia_rio, OF h l(2) n(2)]
    demo_only_ValueError
  show ?thesis by (simp add: features_def unique_def)
qed

section \<open>Negative mileage and horsepower\<close>

text \<open>
  C10. There is no range check on \<open>mileage\<close> or \<open>cv\<close>. For a request where one of them is
  negative, with the artifacts loaded, feature names among the seven of the record and
  encoders whose \<open>transform\<close> raises nothing but ValueError on the request (always so for an
  encoder of strings), the vector holds the raw values wherever their names stand, and the
  request succeeds with a price that is not negative whenever the regressor returns a
  finite number.
\<close>

theorem negative_mileage_or_cv_accepted:
  assumes "globals.model g = Some m" "brand_encoder g = Some be" "model_encoder g = Some me"
    "feature_names g = Some fn" "all_loaded g"
    and "set fn \<subseteq> set features"
    and "\<forall>e. transform astype be (brand car) = Inl e \<longrightarrow> e = ValueError"
    and "\<forall>e. transform astype me (model car) = Inl e \<longrightarrow> e = ValueError"
    and "mileage car < 0 \<or> cv car < 0"
  shows "\<exists>df. input_df astype be me fn car = Inr df \<and>
           (\<forall>i<length fn.
              (fn ! i = ''mileage'' \<longrightarrow> df ! i = (''mileage'', mileage car)) \<and>
              (fn ! i = ''cv'' \<longrightarrow> df ! i = (''cv'', cv car))) \<and>
           (\<forall>x. predict m df = Inr (Finite x) \<longrightarrow>
              predict_price astype g now car =
                Inr \<lparr>input = car, estimated_price_tnd = max 0 \<lfloor>x\<rfloor>,
                     message = ''Prediction successful'', timestamp = now\<rparr> \<and>
              0 \<le> max 0 \<lfloor>x\<rfloor>)"
proof -
  obtain b mo where df: "input_df astype be me fn car = Inr (columns (input_data b mo car) fn)"
    using input_df_total[OF assms(6-8)] by blast
  let ?df = "columns (input_data b mo car) fn"
  have sub: "set fn \<subseteq> fst ` set (input_data b mo car)"
    using assms(6) by (simp add: input_data_fst_set)
  have slots: "\<forall>i<length fn.
      (fn ! i = ''mileage'' \<longrightarrow> ?df ! i = (''mileage'', mileage car)) \<and>
      (fn ! i = ''cv'' \<longrightarrow> ?df ! i = (''cv'', cv car))"
    using columns_slot[OF sub] by (metis input_data_lookup(2,3))
  have ok: "\<forall>x. predict m ?df = Inr (Finite x) \<longrightarrow>
      predict_price astype g now car =
        Inr \<lparr>input = car, estimated_price_tnd = max 0 \<lfloor>x\<rfloor>,
             message = ''Prediction successful'', timestamp = now\<rparr> \<and>
      0 \<le> max 0 \<lfloor>x\<rfloor>"
    using request_succeeds[OF assms(1-5) df] by simp
  from df slots ok show ?thesis by blast
qed

theorem negative_mileage_or_cv_accepted_witness:
  "input_df demo_astype \<lparr>classes = Objects [''BMW'', ''Kia'']\<rparr>
     \<lparr>classes = Objects [''Rio'', ''X1'']\<rparr> features
     (kia_rio\<lparr>mileage := - 8000, cv := - 3\<rparr>) =
     Inr [(''year'', 5), (''mileage'', - 8000), (''cv'', - 3), (''fuel_type'', 0),
          (''transmission'', 0), (''brand_encoded'', 1), (''model_encoded'', 0)] \<and>
   predict_price demo_astype demo_globals demo_now (kia_rio\<lparr>mileage := - 8000, cv := - 3\<rparr>) =
     Inr \<lparr>input = kia_rio\<lparr>mileage := - 8000, cv := - 3\<rparr>, estimated_price_tnd = 26000,
          message = ''Prediction successful'', timestamp = demo_now\<rparr>"
proof -
  let ?car = "kia_rio\<lparr>mileage := - 8000, cv := - 3\<rparr>"
  have neg: "mileage ?car < 0 \<or> cv ?car < 0"
    by simp
  from negative_mileage_or_cv_accepted
    [where astype = demo_astype and now = demo_now,
     OF demo_fields all_loaded_demo subset_refl demo_only_ValueError demo_only_ValueError neg]
  obtain df where
    a: "input_df demo_astype \<lparr>classes = Objects [''BMW'', ''Kia'']\<rparr>
          \<lparr>classes = Objects [''Rio'', ''X1'']\<rparr> features ?car = Inr df"
    and b: "\<And>x. predict demo_forest df = Inr (Finite x) \<Longrightarrow>
      predict_price demo_astype demo_globals demo_now ?car =
        Inr \<lparr>input = ?car, estimated_price_tnd = max 0 \<lfloor>x\<rfloor>,
             message = ''Prediction successful'', timestamp = demo_now\<rparr>"
    by blast
  from a have "predict demo_forest df = Inr (Finite 26000.75)"
    by (auto simp: negative_car_df demo_forest_def)
  from b [OF this] show ?thesis
    by (simp add: negative_car_df)
qed

end
